theory Spec2Isabelle
  imports Complex_Main
begin

section \<open>JavaScript values\<close>

text \<open>
  The guards of \<^verbatim>\<open>src/guard.ts\<close> take a value of type \<^verbatim>\<open>unknown\<close>: any JavaScript
  value. What they observe of it is its \<^verbatim>\<open>typeof\<close> tag, its truthiness and strict
  equality with \<^verbatim>\<open>false\<close>, so a value is modelled by its kind and payload. Objects,
  functions and symbols are references (their identity is a number); the finite numbers
  are the reals, a superset of the finite doubles, beside the special values
  \<^verbatim>\<open>NaN\<close>, \<^verbatim>\<open>-0\<close> and the two infinities.
\<close>

datatype number = NaN | NegZero | PosInfinity | NegInfinity | Finite real

datatype jsval =
    Undefined
  | Null
  | Bool bool
  | Num number
  | BigInt int
  | Str string
  | Symbol nat
  | Function nat
  | Obj nat

text \<open>The \<^verbatim>\<open>typeof\<close> operator; \<^verbatim>\<open>typeof null\<close> is \<^verbatim>\<open>"object"\<close>.\<close>

fun typeof :: "jsval \<Rightarrow> string" where
  "typeof Undefined = ''undefined''"
| "typeof Null = ''object''"
| "typeof (Bool b) = ''boolean''"
| "typeof (Num n) = ''number''"
| "typeof (BigInt i) = ''bigint''"
| "typeof (Str s) = ''string''"
| "typeof (Symbol r) = ''symbol''"
| "typeof (Function r) = ''function''"
| "typeof (Obj r) = ''object''"

text \<open>
  Truthiness (\<^verbatim>\<open>ToBoolean\<close>), as \<^verbatim>\<open>if (x)\<close> and \<^verbatim>\<open>!x\<close> test it: the falsy values are
  \<^verbatim>\<open>undefined\<close>, \<^verbatim>\<open>null\<close>, \<^verbatim>\<open>false\<close>, \<^verbatim>\<open>0\<close>, \<^verbatim>\<open>-0\<close>, \<^verbatim>\<open>NaN\<close>, \<^verbatim>\<open>0n\<close> and \<^verbatim>\<open>""\<close>.
\<close>

fun truthy :: "jsval \<Rightarrow> bool" where
  "truthy Undefined = False"
| "truthy Null = False"
| "truthy (Bool b) = b"
| "truthy (Num n) = (n \<noteq> NaN \<and> n \<noteq> NegZero \<and> n \<noteq> Finite 0)"
| "truthy (BigInt i) = (i \<noteq> 0)"
| "truthy (Str s) = (s \<noteq> [])"
| "truthy (Symbol r) = True"
| "truthy (Function r) = True"
| "truthy (Obj r) = True"

section \<open>Thrown failures and validators\<close>

text \<open>
  A \<^verbatim>\<open>throw\<close> is the left summand of the result. The guards themselves throw
  \<^verbatim>\<open>new Error(msg)\<close>, with \<^verbatim>\<open>msg\<close> possibly absent; a validator supplied by the application
  may throw any value.
\<close>

datatype exn = Error "string option" | TypeError | Thrown jsval

text \<open>
  A validator is any function of type \<^verbatim>\<open>(value: unknown) => T\<close>: it returns a value or
  throws, and it may have effects. The effects are a state \<open>'s\<close> passed through the call,
  so that "the validator was not invoked" is visible: the state is the one before.
\<close>

type_synonym 's validator = "jsval \<Rightarrow> 's \<Rightarrow> (exn + jsval) \<times> 's"

section \<open>The guards\<close>

text \<open>\<^verbatim>\<open>assert(condition, msg?)\<close>: \<^verbatim>\<open>if (condition === false) throw new Error(msg)\<close>.\<close>

definition assert :: "jsval \<Rightarrow> string option \<Rightarrow> exn + unit" where
  "assert condition msg = (if condition = Bool False then Inl (Error msg) else Inr ())"

text \<open>
  The primitive guards: \<^verbatim>\<open>assert(typeof value == "string"); return value\<close>, and the same
  for the other five tags.
\<close>

definition string :: "'s validator" where
  "string value s =
     (case assert (Bool (typeof value = ''string'')) None of
        Inl e \<Rightarrow> (Inl e, s)
      | Inr u \<Rightarrow> (Inr value, s))"

definition number :: "'s validator" where
  "number value s =
     (case assert (Bool (typeof value = ''number'')) None of
        Inl e \<Rightarrow> (Inl e, s)
      | Inr u \<Rightarrow> (Inr value, s))"

definition bigint :: "'s validator" where
  "bigint value s =
     (case assert (Bool (typeof value = ''bigint'')) None of
        Inl e \<Rightarrow> (Inl e, s)
      | Inr u \<Rightarrow> (Inr value, s))"

definition boolean :: "'s validator" where
  "boolean value s =
     (case assert (Bool (typeof value = ''boolean'')) None of
        Inl e \<Rightarrow> (Inl e, s)
      | Inr u \<Rightarrow> (Inr value, s))"

definition callback :: "'s validator" where
  "callback value s =
     (case assert (Bool (typeof value = ''function'')) None of
        Inl e \<Rightarrow> (Inl e, s)
      | Inr u \<Rightarrow> (Inr value, s))"

definition object :: "'s validator" where
  "object value s =
     (case assert (Bool (typeof value = ''object'')) None of
        Inl e \<Rightarrow> (Inl e, s)
      | Inr u \<Rightarrow> (Inr value, s))"

text \<open>
  \<^verbatim>\<open>check(guard)\<close>: \<^verbatim>\<open>try { return guard(value) } catch { return null }\<close>. The effects the
  guard had before it threw stay.
\<close>

definition check :: "'s validator \<Rightarrow> 's validator" where
  "check guard value s =
     (case guard value s of
        (Inr r, s') \<Rightarrow> (Inr r, s')
      | (Inl e, s') \<Rightarrow> (Inr Null, s'))"

text \<open>\<^verbatim>\<open>record(guard)\<close>: \<^verbatim>\<open>return guard(object(value))\<close>.\<close>

definition record_g :: "'s validator \<Rightarrow> 's validator" where
  "record_g guard value s =
     (case object value s of
        (Inl e, s') \<Rightarrow> (Inl e, s')
      | (Inr v, s') \<Rightarrow> guard v s')"

text \<open>
  \<^verbatim>\<open>or(lhs, rhs)\<close>:
  \<^verbatim>\<open>
    const lhs_result = check(lhs)(value)
    if (lhs_result) return value as any
    const rhs_result = check(rhs)(value)
    if (rhs_result) return value as any
    throw new Error("Union check failed")
  \<close>
  The \<open>Inl\<close> branches are a throw of \<^verbatim>\<open>check\<close>, which would leave \<^verbatim>\<open>or\<close> at once.
\<close>

definition or_g :: "'s validator \<Rightarrow> 's validator \<Rightarrow> 's validator" where
  "or_g lhs rhs value s =
     (case check lhs value s of
        (Inl e, s1) \<Rightarrow> (Inl e, s1)
      | (Inr lhs_result, s1) \<Rightarrow>
          if truthy lhs_result then (Inr value, s1)
          else
            (case check rhs value s1 of
               (Inl e, s2) \<Rightarrow> (Inl e, s2)
             | (Inr rhs_result, s2) \<Rightarrow>
                 if truthy rhs_result then (Inr value, s2)
                 else (Inl (Error (Some ''Union check failed'')), s2)))"

text \<open>\<^verbatim>\<open>optional(guard)\<close>: \<^verbatim>\<open>if (!value) return undefined; return guard(value)\<close>.\<close>

definition optional :: "'s validator \<Rightarrow> 's validator" where
  "optional guard value s =
     (if \<not> truthy value then (Inr Undefined, s) else guard value s)"

section \<open>The router\<close>

text \<open>
  \<^verbatim>\<open>src/router.ts\<close>. The request and the response are the host's: of a request the router
  reads \<^verbatim>\<open>req.method\<close> (the field \<open>req_method\<close>) and \<^verbatim>\<open>req.url\<close>; a response is kept as the arguments its constructor
  was given, \<^verbatim>\<open>new Response(body, init?)\<close>.
\<close>

datatype Method = GET | HEAD | POST | PUT | DELETE | PATCH

text \<open>At run time a \<^verbatim>\<open>Method\<close> is its string, and the outer \<^verbatim>\<open>Map\<close> is keyed by it.\<close>

fun method_string :: "Method \<Rightarrow> string" where
  "method_string GET = ''GET''"
| "method_string HEAD = ''HEAD''"
| "method_string POST = ''POST''"
| "method_string PUT = ''PUT''"
| "method_string DELETE = ''DELETE''"
| "method_string PATCH = ''PATCH''"

record request =
  req_method :: string
  url :: string

record response_init =
  status :: nat
  statusText :: string

datatype response = Response string "response_init option"

text \<open>
  The status a response carries: the one its \<^verbatim>\<open>init\<close> names, and the host's default
  \<^verbatim>\<open>200\<close> when the constructor was given none. A client error is a status from
  \<^verbatim>\<open>400\<close> to \<^verbatim>\<open>499\<close>.
\<close>

fun status_of :: "response \<Rightarrow> nat" where
  "status_of (Response body None) = 200"
| "status_of (Response body (Some init)) = status init"

definition is_client_error :: "response \<Rightarrow> bool" where
  "is_client_error r = (400 \<le> status_of r \<and> status_of r < 500)"

text \<open>
  A handler, \<^verbatim>\<open>(req: Request) => Promise<Response>\<close>: the promise settles with a response
  or rejects, and the handler may have effects on a state \<open>'s\<close>.
\<close>

type_synonym 's handler = "request \<Rightarrow> 's \<Rightarrow> (exn + response) \<times> 's"

type_synonym 's InnerRoutes = "string \<rightharpoonup> 's handler"

type_synonym 's OuterRoutes = "string \<rightharpoonup> 's InnerRoutes"

record 's Router =
  routes :: "'s OuterRoutes"

text \<open>
  \<^verbatim>\<open>Router.route(method, route, handler)\<close>:
  \<^verbatim>\<open>
    if (!this.routes.has(method)) this.routes.set(method, new Map())
    const routes = this.routes.get(method)!
    if (routes.has(route)) return false
    routes.set(route, handler)
    return true
  \<close>
  The router is returned updated, beside the result. Were \<^verbatim>\<open>get(method)\<close> undefined, the
  call \<^verbatim>\<open>routes.has\<close> would throw a \<^verbatim>\<open>TypeError\<close>.
\<close>

definition route ::
  "Method \<Rightarrow> string \<Rightarrow> 's handler \<Rightarrow> 's Router \<Rightarrow> (exn + bool) \<times> 's Router" where
  "route meth path handler this =
     (let this1 =
        (if routes this (method_string meth) = None
         then this\<lparr>routes := (routes this)(method_string meth \<mapsto> Map.empty)\<rparr>
         else this)
      in case routes this1 (method_string meth) of
           None \<Rightarrow> (Inl TypeError, this1)
         | Some inner \<Rightarrow>
             if inner path \<noteq> None then (Inr False, this1)
             else (Inr True,
                   this1\<lparr>routes := (routes this1)(method_string meth \<mapsto> inner(path \<mapsto> handler))\<rparr>))"

text \<open>
  \<^verbatim>\<open>Router.handle(req)\<close>:
  \<^verbatim>\<open>
    const routes = this.routes.get(req.method as any)
    if (!routes) return new Response("404 INVALID")
    const url = new URL(req.url)
    if (!routes.has(url.pathname)) return new Response("404 INVALID")
    const handler = routes.get(url.pathname)!
    return handler(req)
  \<close>
  \<open>pathname\<close> stands for the host's \<^verbatim>\<open>new URL(_).pathname\<close>; the URL of a request is
  an absolute URL, which the host parses.
\<close>

definition handle ::
  "(string \<Rightarrow> string) \<Rightarrow> 's Router \<Rightarrow> request \<Rightarrow> 's \<Rightarrow> (exn + response) \<times> 's" where
  "handle pathname this req s =
     (case routes this (req_method req) of
        None \<Rightarrow> (Inr (Response ''404 INVALID'' None), s)
      | Some inner \<Rightarrow>
          (case inner (pathname (url req)) of
             None \<Rightarrow> (Inr (Response ''404 INVALID'' None), s)
           | Some handler \<Rightarrow> handler req s))"

section \<open>The application object\<close>

text \<open>
  The class \<^verbatim>\<open>Torchflower\<close>: its four fields, with the values a new object has. An error
  handler is \<^verbatim>\<open>(error: Error) => Promise<Response>\<close>; the server is the host's,
  \<^verbatim>\<open>Bun.serve\<close>'s result.
\<close>

type_synonym error_handler = "exn \<Rightarrow> exn + response"

record ('s, 'srv) Torchflower =
  router :: "'s Router"
  error_handler :: error_handler
  server :: "'srv option"
  listening :: bool

definition default_error_handler :: error_handler where
  "default_error_handler e =
     Inr (Response ''500 Internal Server Error''
            (Some \<lparr>status = 500, statusText = ''Internal Server Error''\<rparr>))"

definition new_Torchflower :: "('s, 'srv) Torchflower" where
  "new_Torchflower =
     \<lparr>router = \<lparr>routes = Map.empty\<rparr>,
      error_handler = default_error_handler,
      server = None,
      listening = False\<rparr>"

text \<open>
  \<^verbatim>\<open>set_error_handler(handler)\<close>:
  \<^verbatim>\<open>if (!this.listening) return; this.error_handler = handler\<close>.
\<close>

definition set_error_handler ::
  "error_handler \<Rightarrow> ('s, 'srv) Torchflower \<Rightarrow> ('s, 'srv) Torchflower" where
  "set_error_handler handler this =
     (if \<not> listening this then this else this\<lparr>error_handler := handler\<rparr>)"

text \<open>
  \<^verbatim>\<open>serve(port, on)\<close>, as far as the fields go: \<^verbatim>\<open>this.server = Bun.serve({port, fetch,
  error: this.error_handler}); this.listening = true\<close>. \<open>bun_serve\<close> stands for the host's
  \<^verbatim>\<open>Bun.serve\<close>, given the port and the error handler read from the field at this moment;
  the \<^verbatim>\<open>fetch\<close> closure (which calls \<^verbatim>\<open>this.router.handle\<close>) and the callback \<^verbatim>\<open>on\<close> touch
  no field.
\<close>

definition serve ::
  "(nat \<Rightarrow> error_handler \<Rightarrow> 'srv) \<Rightarrow> nat \<Rightarrow> ('s, 'srv) Torchflower \<Rightarrow> ('s, 'srv) Torchflower" where
  "serve bun_serve port this =
     this\<lparr>server := Some (bun_serve port (error_handler this)), listening := True\<rparr>"

section \<open>Validators and handlers of the examples\<close>

text \<open>
  Application-supplied functions used at concrete inputs below. The state of
  \<open>logging\<close> is the list of the arguments it was called with, so a call shows.
\<close>

definition logging :: "jsval list validator" where
  "logging value calls = (Inr value, calls @ [value])"

definition always_left :: "'s validator" where
  "always_left value s = (Inr (Str ''left''), s)"

definition always_right :: "'s validator" where
  "always_right value s = (Inr (Str ''right''), s)"

definition throwing :: "jsval list validator" where
  "throwing value calls = (Inl (Thrown value), calls @ [value])"

definition ok_handler :: "request list handler" where
  "ok_handler req seen = (Inr (Response ''200 OK'' None), seen @ [req])"

definition other_handler :: "request list handler" where
  "other_handler req seen = (Inr (Response ''other'' None), seen @ [req])"

text \<open>The path of the URLs used below, as \<^verbatim>\<open>new URL(u).pathname\<close> gives it.\<close>

definition example_pathname :: "string \<Rightarrow> string" where
  "example_pathname u =
     (if u = ''http://localhost:3000/task'' then ''/task''
      else if u = ''http://localhost:3000/'' then ''/''
      else ''/other'')"

definition example_bun_serve :: "nat \<Rightarrow> error_handler \<Rightarrow> nat" where
  "example_bun_serve port err = port"

definition custom_error_handler :: error_handler where
  "custom_error_handler e = Inr (Response ''custom'' None)"

text \<open>The router of the example application after \<^verbatim>\<open>app.post("/task", handler)\<close>.\<close>

definition task_router :: "request list Router" where
  "task_router = snd (route POST ''/task'' ok_handler \<lparr>routes = Map.empty\<rparr>)"

section \<open>Notions the properties are stated with\<close>

text \<open>
  A call "yields a truthy value" when it returns, and what it returns is truthy; a call
  that throws yields none.
\<close>

definition yields_truthy :: "exn + jsval \<Rightarrow> bool" where
  "yields_truthy r = (case r of Inl e \<Rightarrow> False | Inr v \<Rightarrow> truthy v)"

text \<open>The handler bound to a (method, path) pair in the two-level table, if any.\<close>

definition registered :: "'s Router \<Rightarrow> string \<Rightarrow> string \<Rightarrow> 's handler option" where
  "registered this m p = (case routes this m of None \<Rightarrow> None | Some inner \<Rightarrow> inner p)"

section \<open>Properties of the guards\<close>

text \<open>
  C9. \<^verbatim>\<open>assert(condition, msg)\<close> throws if and only if \<^verbatim>\<open>condition\<close> is the boolean
  \<^verbatim>\<open>false\<close>, and then it throws \<^verbatim>\<open>Error(msg)\<close>. Every other falsy condition (\<^verbatim>\<open>0\<close>, \<^verbatim>\<open>-0\<close>,
  the empty string, \<^verbatim>\<open>null\<close>, \<^verbatim>\<open>undefined\<close>, \<^verbatim>\<open>NaN\<close>) makes it return normally.
\<close>

theorem assert_throws_iff_false:
  "((\<exists>e. assert c msg = Inl e) = (c = Bool False))
   \<and> assert (Bool False) msg = Inl (Error msg)
   \<and> \<not> truthy (Num (Finite 0)) \<and> assert (Num (Finite 0)) msg = Inr ()
   \<and> \<not> truthy (Num NegZero) \<and> assert (Num NegZero) msg = Inr ()
   \<and> \<not> truthy (Str '''') \<and> assert (Str '''') msg = Inr ()
   \<and> \<not> truthy Null \<and> assert Null msg = Inr ()
   \<and> \<not> truthy Undefined \<and> assert Undefined msg = Inr ()
   \<and> \<not> truthy (Num NaN) \<and> assert (Num NaN) msg = Inr ()"
  by (simp add: assert_def)

text \<open>
  C5. Each primitive guard returns its input unchanged, with no effect, exactly when the
  \<^verbatim>\<open>typeof\<close> tag of the input is the guard's own, and throws otherwise. Nothing is coerced:
  \<^verbatim>\<open>number("5")\<close> throws.
\<close>

theorem primitive_succeeds_iff_typeof:
  "string x s = (if typeof x = ''string'' then (Inr x, s) else (Inl (Error None), s))
   \<and> number x s = (if typeof x = ''number'' then (Inr x, s) else (Inl (Error None), s))
   \<and> boolean x s = (if typeof x = ''boolean'' then (Inr x, s) else (Inl (Error None), s))
   \<and> bigint x s = (if typeof x = ''bigint'' then (Inr x, s) else (Inl (Error None), s))
   \<and> callback x s = (if typeof x = ''function'' then (Inr x, s) else (Inl (Error None), s))
   \<and> object x s = (if typeof x = ''object'' then (Inr x, s) else (Inl (Error None), s))
   \<and> number (Str ''5'') s = (Inl (Error None), s)"
  by (simp add: string_def number_def boolean_def bigint_def callback_def object_def assert_def)

text \<open>
  C3. \<^verbatim>\<open>check(v)(x)\<close> never throws: it returns what \<^verbatim>\<open>v(x)\<close> returns when that call
  succeeds, and \<^verbatim>\<open>null\<close> when \<^verbatim>\<open>v(x)\<close> throws, whatever is thrown.
\<close>

theorem check_never_throws:
  "(\<exists>r s'. check v x s = (Inr r, s'))
   \<and> (\<forall>r s'. v x s = (Inr r, s') \<longrightarrow> check v x s = (Inr r, s'))
   \<and> (\<forall>e s'. v x s = (Inl e, s') \<longrightarrow> check v x s = (Inr Null, s'))"
  by (cases "v x s" rule: prod.exhaust; cases "fst (v x s)"; simp add: check_def)

theorem check_never_throws_witness:
  "throwing (Num (Finite 1)) [] = (Inl (Thrown (Num (Finite 1))), [Num (Finite 1)])
   \<and> check throwing (Num (Finite 1)) [] = (Inr Null, [Num (Finite 1)])
   \<and> string (Str ''a'') [] = (Inr (Str ''a''), ([]::jsval list))
   \<and> check string (Str ''a'') [] = (Inr (Str ''a''), ([]::jsval list))"
  using check_never_throws [of throwing "Num (Finite 1)" "[]"]
    check_never_throws [of string "Str ''a''" "[]::jsval list"]
  by (simp add: throwing_def string_def assert_def)

text \<open>
  What \<^verbatim>\<open>or\<close> computes. \<^verbatim>\<open>or(a, b)(x)\<close> runs \<^verbatim>\<open>a\<close> first. If \<^verbatim>\<open>a(x)\<close> yields a truthy
  value, the result is the input \<^verbatim>\<open>x\<close> and \<^verbatim>\<open>b\<close> is not run; otherwise \<^verbatim>\<open>b\<close> is run, and
  if \<^verbatim>\<open>b(x)\<close> yields a truthy value the result is again \<^verbatim>\<open>x\<close>; if neither does, the call
  throws \<^verbatim>\<open>Error("Union check failed")\<close>.
\<close>

lemma or_returns_input:
  "or_g a b x s =
     (if yields_truthy (fst (a x s)) then (Inr x, snd (a x s))
      else if yields_truthy (fst (b x (snd (a x s)))) then (Inr x, snd (b x (snd (a x s))))
      else (Inl (Error (Some ''Union check failed'')), snd (b x (snd (a x s)))))"
  by (simp add: or_g_def check_def yields_truthy_def split: prod.splits sum.splits)

text \<open>
  C1. \<^verbatim>\<open>or(a, b)(x)\<close> is to return the value of the first branch that yields a truthy
  one, the left branch's when both do. The code returns its input instead: on the input
  \<^verbatim>\<open>5\<close> the left validator yields the truthy string \<^verbatim>\<open>"left"\<close>, the right one \<^verbatim>\<open>"right"\<close>,
  and \<^verbatim>\<open>or\<close> returns \<^verbatim>\<open>5\<close>, which is neither.
\<close>

theorem or_discards_left_value:
  "always_left (Num (Finite 5)) () = (Inr (Str ''left''), ())
   \<and> truthy (Str ''left'')
   \<and> always_right (Num (Finite 5)) () = (Inr (Str ''right''), ())
   \<and> or_g always_left always_right (Num (Finite 5)) () = (Inr (Num (Finite 5)), ())
   \<and> or_g always_left always_right (Num (Finite 5)) () \<noteq> (Inr (Str ''left''), ())"
  by (simp add: or_g_def check_def always_left_def always_right_def)

text \<open>
  C2. When \<^verbatim>\<open>a(x)\<close> succeeds with a falsy value, \<^verbatim>\<open>or(a, b)(x)\<close> does not use it: \<^verbatim>\<open>b\<close> is
  run next, and the call throws unless \<^verbatim>\<open>b(x)\<close> yields a truthy value.
\<close>

theorem or_falsy_left_falls_through:
  assumes "a x s = (Inr r, s1)" and "\<not> truthy r"
  shows "or_g a b x s =
     (case b x s1 of
        (Inr rb, s2) \<Rightarrow>
          if truthy rb then (Inr x, s2) else (Inl (Error (Some ''Union check failed'')), s2)
      | (Inl e, s2) \<Rightarrow> (Inl (Error (Some ''Union check failed'')), s2))"
  using assms by (simp add: or_g_def check_def split: prod.splits sum.splits)

theorem or_falsy_left_falls_through_witness:
  "number (Num (Finite 0)) ([]::jsval list) = (Inr (Num (Finite 0)), [])
   \<and> \<not> truthy (Num (Finite 0))
   \<and> or_g number logging (Num (Finite 0)) [] =
       (Inl (Error (Some ''Union check failed'')), [Num (Finite 0)])"
proof -
  have a: "number (Num (Finite 0)) ([]::jsval list) = (Inr (Num (Finite 0)), [])"
    by (simp add: number_def assert_def)
  have f: "\<not> truthy (Num (Finite 0))" by simp
  show ?thesis
    using a f
      or_falsy_left_falls_through
        [of number "Num (Finite 0)" "[]" "Num (Finite 0)" "[]" logging]
    by (simp add: logging_def)
qed

text \<open>
  C4. \<^verbatim>\<open>record(guard)(value)\<close> is to assert that \<^verbatim>\<open>value\<close> is a structured object, not
  \<^verbatim>\<open>null\<close>, before it runs \<^verbatim>\<open>guard\<close>. On \<^verbatim>\<open>null\<close> the code's assertion passes, since
  \<^verbatim>\<open>typeof null\<close> is \<^verbatim>\<open>"object"\<close>: the guard is run on \<^verbatim>\<open>null\<close>, and the call is whatever
  the guard makes of it.
\<close>

theorem record_invokes_guard_on_null:
  "record_g guard Null s = guard Null s
   \<and> record_g logging Null [] = (Inr Null, [Null])"
  by (simp add: record_g_def object_def assert_def logging_def)

text \<open>
  On every value whose tag is not \<^verbatim>\<open>"object"\<close> (the primitives, \<^verbatim>\<open>undefined\<close>, functions)
  the assertion does fail: the call throws and the guard is not run.
\<close>

lemma record_rejects_non_object:
  "typeof value \<noteq> ''object'' \<Longrightarrow> record_g guard value s = (Inl (Error None), s)"
  by (simp add: record_g_def object_def assert_def)

text \<open>
  C6. \<^verbatim>\<open>optional(g)\<close> returns \<^verbatim>\<open>undefined\<close> on \<^verbatim>\<open>undefined\<close> and on every other falsy value,
  without running \<^verbatim>\<open>g\<close>; on a truthy value it is \<^verbatim>\<open>g\<close>'s own call, result or throw.
\<close>

theorem optional_absent_or_delegates:
  "optional g Undefined s = (Inr Undefined, s)
   \<and> (\<not> truthy v \<longrightarrow> optional g v s = (Inr Undefined, s))
   \<and> (truthy v \<longrightarrow> optional g v s = g v s)"
  by (simp add: optional_def)

theorem optional_absent_or_delegates_witness:
  "optional logging Undefined [] = (Inr Undefined, [])
   \<and> \<not> truthy (Num (Finite 0))
   \<and> optional logging (Num (Finite 0)) [] = (Inr Undefined, [])
   \<and> truthy (Str ''a'')
   \<and> optional logging (Str ''a'') [] = (Inr (Str ''a''), [Str ''a''])
   \<and> optional throwing (Str ''a'') [] = (Inl (Thrown (Str ''a'')), [Str ''a''])"
  using optional_absent_or_delegates [of logging "[]" "Num (Finite 0)"]
    optional_absent_or_delegates [of logging "[]" "Str ''a''"]
    optional_absent_or_delegates [of throwing "[]" "Str ''a''"]
  by (simp add: logging_def throwing_def)

section \<open>Properties of the router\<close>

text \<open>
  C7. Registering a handler for a (method, path) pair that already has one returns
  \<^verbatim>\<open>false\<close> and leaves the router as it was, so the handler registered first stays
  bound. Registering for a pair with none returns \<^verbatim>\<open>true\<close>, binds the handler to the
  pair and changes no other pair.
\<close>

theorem route_first_registration_wins:
  "(registered this (method_string m) p = Some h0 \<longrightarrow>
      route m p h this = (Inr False, this))
   \<and> (registered this (method_string m) p = None \<longrightarrow>
        fst (route m p h this) = Inr True
        \<and> registered (snd (route m p h this)) (method_string m) p = Some h
        \<and> (\<forall>m' p'. (m', p') \<noteq> (method_string m, p) \<longrightarrow>
              registered (snd (route m p h this)) m' p' = registered this m' p'))"
  by (auto simp: route_def registered_def Let_def split: option.splits)

theorem route_first_registration_wins_witness:
  "registered \<lparr>routes = Map.empty\<rparr> ''GET'' ''/a'' = (None :: request list handler option)
   \<and> fst (route GET ''/a'' ok_handler \<lparr>routes = Map.empty\<rparr>) = Inr True
   \<and> registered (snd (route GET ''/a'' ok_handler \<lparr>routes = Map.empty\<rparr>)) ''GET'' ''/a''
       = Some ok_handler
   \<and> route GET ''/a'' other_handler (snd (route GET ''/a'' ok_handler \<lparr>routes = Map.empty\<rparr>))
       = (Inr False, snd (route GET ''/a'' ok_handler \<lparr>routes = Map.empty\<rparr>))"
proof -
  let ?r0 = "\<lparr>routes = Map.empty\<rparr> :: request list Router"
  have e: "registered ?r0 (method_string GET) ''/a'' = None"
    by (simp add: registered_def)
  from route_first_registration_wins [of ?r0 GET "''/a''" ok_handler ok_handler] e
  have 1: "fst (route GET ''/a'' ok_handler ?r0) = Inr True"
    and 2: "registered (snd (route GET ''/a'' ok_handler ?r0)) (method_string GET) ''/a''
              = Some ok_handler"
    by blast+
  from route_first_registration_wins
         [of "snd (route GET ''/a'' ok_handler ?r0)" GET "''/a''" ok_handler other_handler] 2
  have 3: "route GET ''/a'' other_handler (snd (route GET ''/a'' ok_handler ?r0))
             = (Inr False, snd (route GET ''/a'' ok_handler ?r0))"
    by blast
  from e 1 2 3 show ?thesis by simp
qed

text \<open>
  What \<^verbatim>\<open>handle\<close> computes. It returns the fixed response \<^verbatim>\<open>new Response("404 INVALID")\<close>,
  running no handler and throwing nothing, when the request's method has no table or the
  table has no handler for the exact path of the request's URL; when a handler is bound to
  that method and path, the result is that handler's call on the request, as it is.
\<close>

lemma handle_dispatches_exact_match:
  "(routes this (req_method req) = None \<longrightarrow>
      handle pathname this req s = (Inr (Response ''404 INVALID'' None), s))
   \<and> (\<forall>inner. routes this (req_method req) = Some inner \<and> inner (pathname (url req)) = None \<longrightarrow>
        handle pathname this req s = (Inr (Response ''404 INVALID'' None), s))
   \<and> (\<forall>inner h. routes this (req_method req) = Some inner \<and> inner (pathname (url req)) = Some h \<longrightarrow>
        handle pathname this req s = h req s)"
  by (simp add: handle_def)

lemma task_router_routes:
  "routes task_router = [''POST'' \<mapsto> [''/task'' \<mapsto> ok_handler]]"
  by (simp add: task_router_def route_def)

lemma handle_dispatches_exact_match_witness:
  "handle example_pathname task_router \<lparr>req_method = ''GET'', url = ''http://localhost:3000/task''\<rparr> []
     = (Inr (Response ''404 INVALID'' None), [])
   \<and> handle example_pathname task_router \<lparr>req_method = ''POST'', url = ''http://localhost:3000/''\<rparr> []
     = (Inr (Response ''404 INVALID'' None), [])
   \<and> handle example_pathname task_router \<lparr>req_method = ''POST'', url = ''http://localhost:3000/task''\<rparr> []
     = (Inr (Response ''200 OK'' None), [\<lparr>req_method = ''POST'', url = ''http://localhost:3000/task''\<rparr>])"
  using
    handle_dispatches_exact_match
      [of task_router "\<lparr>req_method = ''GET'', url = ''http://localhost:3000/task''\<rparr>" example_pathname "[]"]
    handle_dispatches_exact_match
      [of task_router "\<lparr>req_method = ''POST'', url = ''http://localhost:3000/''\<rparr>" example_pathname "[]"]
    handle_dispatches_exact_match
      [of task_router "\<lparr>req_method = ''POST'', url = ''http://localhost:3000/task''\<rparr>" example_pathname "[]"]
  by (simp add: task_router_routes example_pathname_def ok_handler_def)

text \<open>
  C8. For a request that matches no route, \<^verbatim>\<open>handle\<close> is to return the fixed not-found
  client-error response. The response the code returns is built with no status, so it
  carries the default \<^verbatim>\<open>200\<close>, which is no client error; only its body reads "404". This
  holds for every request on a router with no routes, and for \<^verbatim>\<open>GET /task\<close> on the router
  that has only \<^verbatim>\<open>POST /task\<close>. The default error handler, beside it, does set its status.
\<close>

theorem handle_not_found_has_status_200:
  "handle pathname \<lparr>routes = Map.empty\<rparr> req s = (Inr (Response ''404 INVALID'' None), s)
   \<and> handle example_pathname task_router
         \<lparr>req_method = ''GET'', url = ''http://localhost:3000/task''\<rparr> []
       = (Inr (Response ''404 INVALID'' None), [])
   \<and> status_of (Response ''404 INVALID'' None) = 200
   \<and> \<not> is_client_error (Response ''404 INVALID'' None)
   \<and> default_error_handler e
       = Inr (Response ''500 Internal Server Error''
                (Some \<lparr>status = 500, statusText = ''Internal Server Error''\<rparr>))
   \<and> status_of (Response ''500 Internal Server Error''
                (Some \<lparr>status = 500, statusText = ''Internal Server Error''\<rparr>)) = 500"
  by (simp add: handle_def task_router_def route_def is_client_error_def
        default_error_handler_def)

section \<open>Properties of the application object\<close>

text \<open>
  C10. \<^verbatim>\<open>set_error_handler(handler)\<close> stores the handler only when \<^verbatim>\<open>listening\<close> is
  already true. While it is false, as on a new object before \<^verbatim>\<open>serve\<close>, the call changes
  nothing and the default handler stays. No field but \<^verbatim>\<open>error_handler\<close> is ever changed.
\<close>

theorem set_error_handler_only_when_listening:
  "(listening this \<longrightarrow> set_error_handler h this = this\<lparr>error_handler := h\<rparr>)
   \<and> (\<not> listening this \<longrightarrow> set_error_handler h this = this)
   \<and> router (set_error_handler h this) = router this
   \<and> server (set_error_handler h this) = server this
   \<and> listening (set_error_handler h this) = listening this
   \<and> \<not> listening (new_Torchflower :: ('s, 'srv) Torchflower)
   \<and> error_handler (set_error_handler h (new_Torchflower :: ('s, 'srv) Torchflower))
       = default_error_handler"
  by (simp add: set_error_handler_def new_Torchflower_def)

theorem set_error_handler_only_when_listening_witness:
  "\<not> listening (new_Torchflower :: (unit, nat) Torchflower)
   \<and> set_error_handler custom_error_handler (new_Torchflower :: (unit, nat) Torchflower)
       = new_Torchflower
   \<and> listening (serve example_bun_serve 3000 (new_Torchflower :: (unit, nat) Torchflower))
   \<and> error_handler
        (set_error_handler custom_error_handler
           (serve example_bun_serve 3000 (new_Torchflower :: (unit, nat) Torchflower))) TypeError
       = Inr (Response ''custom'' None)"
proof -
  let ?app = "new_Torchflower :: (unit, nat) Torchflower"
  let ?served = "serve example_bun_serve 3000 ?app"
  have off: "\<not> listening ?app"
    by (simp add: new_Torchflower_def)
  have on: "listening ?served"
    by (simp add: serve_def)
  from off set_error_handler_only_when_listening [of ?app custom_error_handler]
  have before: "set_error_handler custom_error_handler ?app = ?app"
    by blast
  from on set_error_handler_only_when_listening [of ?served custom_error_handler]
  have "set_error_handler custom_error_handler ?served
          = ?served\<lparr>error_handler := custom_error_handler\<rparr>"
    by blast
  then have after:
    "error_handler (set_error_handler custom_error_handler ?served) TypeError
       = Inr (Response ''custom'' None)"
    by (simp add: custom_error_handler_def)
  from off before on after show ?thesis by blast
qed

end
